theory Spec2Isabelle
  imports Main "HOL-Library.Word"
begin

section \<open>Package secrets (src/secrets/secrets.go): data model\<close>

text \<open>
  A Go \<^verbatim>\<open>[]byte\<close> is a list of bytes or the nil slice; \<open>None\<close> is the nil slice, which
  the Keeper returns next to every error.
\<close>

type_synonym byte = "8 word"
type_synonym slice = "byte list option"

text \<open>
  \<^verbatim>\<open>url.URL\<close> belongs to the Go standard library. The package reads the field
  \<^verbatim>\<open>Scheme\<close> only and hands the whole value to the opener and to the error message; the
  other fields kept here are carried along untouched.
\<close>

record URL =
  Scheme :: string
  Host :: string
  Path :: string
  RawQuery :: string

text \<open>
  A Go \<^verbatim>\<open>error\<close> interface value is \<open>error option\<close>: \<open>None\<close> is nil. The shapes an error
  can have in this package:
  \<^item> \<open>ProviderError\<close>: an error made outside the package (a backend's own error, a parse
    error of \<^verbatim>\<open>url.Parse\<close>, \<^verbatim>\<open>context.Canceled\<close>), told apart by its text;
  \<^item> \<open>Errorf\<close>: \<^verbatim>\<open>fmt.Errorf(format, args...)\<close>, kept as the format string and its
    arguments in the order of the call;
  \<^item> \<open>gcerr_Error\<close>: the \<^verbatim>\<open>*gcerr.Error\<close> built by \<^verbatim>\<open>gcerr.New\<close>.
\<close>

type_synonym ErrorCode = int

datatype error =
    ProviderError string
  | Errorf string "fmt_arg list"
  | gcerr_Error (Code: ErrorCode) (cause: error) (msg: string)
and fmt_arg =
    ArgString string
  | ArgURL URL
  | ArgError error

text \<open>
  Modelled from the spec: \<^verbatim>\<open>gcerr.New(code, err, callDepth, msg)\<close> of gocloud.dev/internal/gcerr,
  which is not among the sources. Spec 4.3: the uniform error value carries an error-kind
  code, the original error as an embedded cause, and a short static context tag. The call
  depth selects the stack frame recorded for diagnostics and is not stored.
\<close>

definition gcerr_New :: "ErrorCode \<Rightarrow> error \<Rightarrow> nat \<Rightarrow> string \<Rightarrow> error" where
  "gcerr_New c err callDepth m = gcerr_Error c err m"

text \<open>
  A \<^verbatim>\<open>context.Context\<close>: a root context of the caller (told apart by a number), or a
  context derived from a parent by starting a span.
\<close>

datatype Context =
    Background nat
  | WithSpan string string string Context

text \<open>
  The target \<^verbatim>\<open>i interface{}\<close> of \<^verbatim>\<open>ErrorAs\<close>: the nil interface, a value that is not a
  pointer, a typed nil pointer, or a pointer to a destination.
\<close>

datatype target = NilInterface | NotPointer | NilPointer | Pointer nat

text \<open>
  A panic ends the call without a result: with the error value given to \<^verbatim>\<open>panic\<close>, with
  the abort of \<^verbatim>\<open>ErrorAs\<close> on a bad target, or with the runtime error of dereferencing a
  nil pointer.
\<close>

datatype panic = Panic error | InvalidTarget | NilPointerDereference

subsection \<open>driver.Keeper, the backend capability contract\<close>

text \<open>
  The interface \<^verbatim>\<open>driver.Keeper\<close> (gocloud.dev/secrets/driver) is a record of its four
  methods. A backend owns state of its own (keys, connections, nonces), of type \<open>'s\<close>:
  \<^verbatim>\<open>Encrypt\<close> and \<^verbatim>\<open>Decrypt\<close> read and update it. \<^verbatim>\<open>ErrorCode\<close> and \<^verbatim>\<open>ErrorAs\<close> classify an
  error value and do not touch it.
\<close>

record 's driver_Keeper =
  Decrypt :: "Context \<Rightarrow> slice \<Rightarrow> 's \<Rightarrow> (slice \<times> error option) \<times> 's"
  Encrypt :: "Context \<Rightarrow> slice \<Rightarrow> 's \<Rightarrow> (slice \<times> error option) \<times> 's"
  ErrorAs :: "error \<Rightarrow> target \<Rightarrow> bool"
  ErrorCode :: "error \<Rightarrow> ErrorCode"

subsection \<open>oc.Tracer, the instrumentation context\<close>

datatype measure = oc_LatencyMeasure string

record Tracer =
  Package :: string
  Provider :: string
  LatencyMeasure :: measure

text \<open>
  What the observability sink receives when a span ends: the context of the span, the
  status (the error the call returns, nil on success) and the measure the latency is
  recorded under. The duration itself is real time and is left out.
\<close>

record observation =
  obs_ctx :: Context
  obs_status :: "error option"
  obs_measure :: measure

text \<open>
  Modelled from the spec: \<^verbatim>\<open>(*oc.Tracer).Start\<close> and \<^verbatim>\<open>(*oc.Tracer).End\<close> of
  gocloud.dev/internal/oc, which is not among the sources. Spec 2 and 4.2: the wrapper
  starts a span per operation, tagged with the package, the operation name and the
  provider identity, and on ending it emits one sample carrying the status; the
  instrumentation configuration is immutable, so neither method returns a new Tracer.
\<close>

definition Tracer_Start :: "Tracer \<Rightarrow> Context \<Rightarrow> string \<Rightarrow> Context" where
  "Tracer_Start t ctx methodName = WithSpan (Package t) methodName (Provider t) ctx"

definition Tracer_End :: "Tracer \<Rightarrow> Context \<Rightarrow> error option \<Rightarrow> observation list \<Rightarrow> observation list" where
  "Tracer_End t ctx err snk =
     snk @ [\<lparr>obs_ctx = ctx, obs_status = err, obs_measure = LatencyMeasure t\<rparr>]"

subsection \<open>Keeper, the facade\<close>

record 's Keeper =
  Keeper_k :: "'s driver_Keeper"
  Keeper_tracer :: Tracer

definition pkgName :: string where
  "pkgName = ''gocloud.dev/secrets''"

definition latencyMeasure :: measure where
  "latencyMeasure = oc_LatencyMeasure pkgName"

text \<open>
  \<^verbatim>\<open>newKeeper\<close>. \<^verbatim>\<open>oc.ProviderName\<close> is not among the sources and is taken as a parameter.
\<close>

definition newKeeper :: "('s driver_Keeper \<Rightarrow> string) \<Rightarrow> 's driver_Keeper \<Rightarrow> 's Keeper" where
  "newKeeper ProviderName d =
     \<lparr>Keeper_k = d,
      Keeper_tracer = \<lparr>Package = pkgName, Provider = ProviderName d, LatencyMeasure = latencyMeasure\<rparr>\<rparr>"

text \<open>
  The methods have the pointer receiver \<^verbatim>\<open>k *Keeper\<close>, so a call could assign to the
  struct behind it. The state a call runs in therefore holds that struct (\<open>this\<close>), the
  state owned by the backend, and what the observability sink has received so far. Each
  method takes the state and returns its result with the state after the call.
\<close>

record 's state =
  this :: "'s Keeper"
  backend :: 's
  sink :: "observation list"

text \<open>
  \<^verbatim>\<open>wrapError\<close>. \<^verbatim>\<open>gcerr.DoNotWrap\<close> is not among the sources; it is a test on the error
  value alone and is taken as the parameter \<open>DoNotWrap\<close>.
\<close>

definition wrapError :: "(error \<Rightarrow> bool) \<Rightarrow> 's Keeper \<Rightarrow> error \<Rightarrow> error" where
  "wrapError DoNotWrap kp err =
     (if DoNotWrap err then err
      else gcerr_New (ErrorCode (Keeper_k kp) err) err 2 ''secrets'')"

text \<open>
  \<^verbatim>\<open>Keeper.Encrypt\<close>. The deferred \<^verbatim>\<open>k.tracer.End(ctx, err)\<close> runs after the return values
  are set, with the context returned by \<^verbatim>\<open>Start\<close> and the error the call returns.
\<close>

definition Keeper_Encrypt ::
  "(error \<Rightarrow> bool) \<Rightarrow> Context \<Rightarrow> slice \<Rightarrow> 's state \<Rightarrow> (slice \<times> error option) \<times> 's state" where
  "Keeper_Encrypt DoNotWrap ctx plaintext st =
     (let kp = this st;
          ctx1 = Tracer_Start (Keeper_tracer kp) ctx ''Encrypt'';
          ((b, err), s1) = Encrypt (Keeper_k kp) ctx1 plaintext (backend st);
          ret = (case err of
                   Some e \<Rightarrow> (None, Some (wrapError DoNotWrap kp e))
                 | None \<Rightarrow> (b, None))
      in (ret, st\<lparr>backend := s1,
                  sink := Tracer_End (Keeper_tracer kp) ctx1 (snd ret) (sink st)\<rparr>))"

text \<open>\<^verbatim>\<open>Keeper.Decrypt\<close>.\<close>

definition Keeper_Decrypt ::
  "(error \<Rightarrow> bool) \<Rightarrow> Context \<Rightarrow> slice \<Rightarrow> 's state \<Rightarrow> (slice \<times> error option) \<times> 's state" where
  "Keeper_Decrypt DoNotWrap ctx ciphertext st =
     (let kp = this st;
          ctx1 = Tracer_Start (Keeper_tracer kp) ctx ''Decrypt'';
          ((b, err), s1) = Decrypt (Keeper_k kp) ctx1 ciphertext (backend st);
          ret = (case err of
                   Some e \<Rightarrow> (None, Some (wrapError DoNotWrap kp e))
                 | None \<Rightarrow> (b, None))
      in (ret, st\<lparr>backend := s1,
                  sink := Tracer_End (Keeper_tracer kp) ctx1 (snd ret) (sink st)\<rparr>))"

text \<open>
  Modelled from the spec: \<^verbatim>\<open>gcerr.ErrorAs(err, target, errorAs)\<close> of
  gocloud.dev/internal/gcerr, which is not among the sources. Spec 4.2, in its order:
  the target must be a non-null pointer-like destination, and a violation aborts
  immediately; if the error is the absence value the result is false and no conversion
  is attempted; otherwise the backend's conversion decides. Spec 4.3: the embedded cause
  of a normalized error stays reachable for the conversion, so one layer of
  \<open>gcerr_Error\<close> is taken off before the backend sees the error.
\<close>

definition gcerr_Unwrap :: "error \<Rightarrow> error" where
  "gcerr_Unwrap e = (case e of gcerr_Error c e0 m \<Rightarrow> e0 | _ \<Rightarrow> e)"

definition gcerr_ErrorAs ::
  "error option \<Rightarrow> target \<Rightarrow> (error \<Rightarrow> target \<Rightarrow> bool) \<Rightarrow> panic + bool" where
  "gcerr_ErrorAs err i errorAs =
     (case i of
        Pointer a \<Rightarrow>
          (case err of
             None \<Rightarrow> Inr False
           | Some e \<Rightarrow> Inr (errorAs (gcerr_Unwrap e) i))
      | _ \<Rightarrow> Inl InvalidTarget)"

text \<open>\<^verbatim>\<open>Keeper.ErrorAs\<close>.\<close>

definition Keeper_ErrorAs ::
  "error option \<Rightarrow> target \<Rightarrow> 's state \<Rightarrow> (panic + bool) \<times> 's state" where
  "Keeper_ErrorAs err i st = (gcerr_ErrorAs err i (ErrorAs (Keeper_k (this st))), st)"

text \<open>
  The one call a Keeper method makes on its backend (lines 106 and 118): the bound
  backend's method, on the context returned by \<^verbatim>\<open>Start\<close>, in the backend's current state.
\<close>

definition delegated_Encrypt :: "'s state \<Rightarrow> Context \<Rightarrow> slice \<Rightarrow> (slice \<times> error option) \<times> 's" where
  "delegated_Encrypt st ctx plaintext =
     Encrypt (Keeper_k (this st)) (Tracer_Start (Keeper_tracer (this st)) ctx ''Encrypt'')
       plaintext (backend st)"

definition delegated_Decrypt :: "'s state \<Rightarrow> Context \<Rightarrow> slice \<Rightarrow> (slice \<times> error option) \<times> 's" where
  "delegated_Decrypt st ctx ciphertext =
     Decrypt (Keeper_k (this st)) (Tracer_Start (Keeper_tracer (this st)) ctx ''Decrypt'')
       ciphertext (backend st)"

text \<open>
  A sequence of calls on one Keeper. Each call runs in the state the one before left; a
  panic of \<^verbatim>\<open>ErrorAs\<close> leaves the state as it was, whether or not the caller recovers.
  \<open>states\<close> lists the state before the first call and the state after each call.
\<close>

datatype call =
    CallEncrypt Context slice
  | CallDecrypt Context slice
  | CallErrorAs "error option" target

fun step :: "(error \<Rightarrow> bool) \<Rightarrow> call \<Rightarrow> 's state \<Rightarrow> 's state" where
  "step DoNotWrap (CallEncrypt ctx p) st = snd (Keeper_Encrypt DoNotWrap ctx p st)"
| "step DoNotWrap (CallDecrypt ctx c) st = snd (Keeper_Decrypt DoNotWrap ctx c st)"
| "step DoNotWrap (CallErrorAs err i) st = snd (Keeper_ErrorAs err i st)"

fun states :: "(error \<Rightarrow> bool) \<Rightarrow> call list \<Rightarrow> 's state \<Rightarrow> 's state list" where
  "states DoNotWrap [] st = [st]"
| "states DoNotWrap (c # cs) st = st # states DoNotWrap cs (step DoNotWrap c st)"

section \<open>URLMux, the scheme registry\<close>

text \<open>
  A \<^verbatim>\<open>KeeperURLOpener\<close> is its one method \<^verbatim>\<open>OpenKeeperURL(ctx, u) (*Keeper, error)\<close>. An
  opener builds a backend, so it runs in a world \<open>'w\<close> of its own that it may change; a
  call that leaves the world as it was has run no opener that records its calls. The
  interface value may be nil (\<open>None\<close>), and so may the returned \<^verbatim>\<open>*Keeper\<close>.
\<close>

type_synonym ('s, 'w) KeeperURLOpener =
  "Context \<Rightarrow> URL \<Rightarrow> 'w \<Rightarrow> ('s Keeper option \<times> error option) \<times> 'w"

text \<open>
  The field \<^verbatim>\<open>schemes map[string]KeeperURLOpener\<close>: \<open>None\<close> is the nil map of the zero
  value; in a map, a key is absent (\<open>None\<close>) or bound to an interface value, which may
  itself be nil (\<open>Some None\<close>).
\<close>

record ('s, 'w) URLMux =
  schemes :: "(string \<rightharpoonup> ('s, 'w) KeeperURLOpener option) option"

text \<open>
  The index expression \<^verbatim>\<open>m[key]\<close> of Go: the zero value, here the nil interface, for a key
  that is absent and for every key of a nil map.
\<close>

definition map_index :: "(string \<rightharpoonup> 'a option) option \<Rightarrow> string \<Rightarrow> 'a option" where
  "map_index tbl key =
     (case tbl of
        None \<Rightarrow> None
      | Some m \<Rightarrow> (case m key of None \<Rightarrow> None | Some v \<Rightarrow> v))"

text \<open>
  The comma-ok form \<^verbatim>\<open>_, exists := mux.schemes[scheme]\<close>: whether the key is in the map,
  whatever it is bound to.
\<close>

definition scheme_exists :: "('s, 'w) URLMux \<Rightarrow> string \<Rightarrow> bool" where
  "scheme_exists m scheme =
     (case schemes m of
        None \<Rightarrow> False
      | Some tbl \<Rightarrow> (case tbl scheme of None \<Rightarrow> False | Some _ \<Rightarrow> True))"

text \<open>
  \<^verbatim>\<open>URLMux.RegisterKeeper\<close>. The receiver is a pointer: \<open>None\<close> is the nil \<^verbatim>\<open>*URLMux\<close>, whose
  field cannot be read. The result is the panic, or the struct after the call.
  \<open>already_registered\<close> is the value given to \<^verbatim>\<open>panic\<close> at line 169.
\<close>

definition already_registered :: "string \<Rightarrow> panic" where
  "already_registered scheme =
     Panic (Errorf ''scheme %q already registered on mux'' [ArgString scheme])"

definition RegisterKeeper ::
  "('s, 'w) URLMux option \<Rightarrow> string \<Rightarrow> ('s, 'w) KeeperURLOpener option \<Rightarrow> panic + ('s, 'w) URLMux" where
  "RegisterKeeper mux scheme opener =
     (case mux of
        None \<Rightarrow> Inl NilPointerDereference
      | Some m \<Rightarrow>
          (case schemes m of
             None \<Rightarrow> Inr (m\<lparr>schemes := Some (Map.empty(scheme \<mapsto> opener))\<rparr>)
           | Some tbl \<Rightarrow>
               (case tbl scheme of
                  Some _ \<Rightarrow> Inl (already_registered scheme)
                | None \<Rightarrow> Inr (m\<lparr>schemes := Some (tbl(scheme \<mapsto> opener))\<rparr>))))"

text \<open>
  \<^verbatim>\<open>URLMux.OpenKeeperURL\<close>. Both the receiver and \<^verbatim>\<open>u *url.URL\<close> are pointers; reading
  \<^verbatim>\<open>u.Scheme\<close> of a nil \<^verbatim>\<open>u\<close> panics, a nil receiver is tested for. \<open>lookup_opener\<close> is the
  variable \<^verbatim>\<open>opener\<close> after the test: nil for a nil receiver, \<^verbatim>\<open>mux.schemes[u.Scheme]\<close>
  otherwise.
\<close>

definition lookup_opener ::
  "('s, 'w) URLMux option \<Rightarrow> string \<Rightarrow> ('s, 'w) KeeperURLOpener option" where
  "lookup_opener mux scheme =
     (case mux of
        None \<Rightarrow> None
      | Some m \<Rightarrow> map_index (schemes m) scheme)"

text \<open>The two errors \<^verbatim>\<open>OpenKeeperURL\<close> builds itself, at lines 188 and 195.\<close>

definition no_scheme_error :: "URL \<Rightarrow> error" where
  "no_scheme_error u = Errorf ''open keeper %q: no scheme in URL'' [ArgURL u]"

definition no_provider_error :: "URL \<Rightarrow> error" where
  "no_provider_error u =
     Errorf ''open keeper %q: no provider registered for %s'' [ArgURL u, ArgString (Scheme u)]"

definition OpenKeeperURL ::
  "('s, 'w) URLMux option \<Rightarrow> Context \<Rightarrow> URL option \<Rightarrow> 'w \<Rightarrow>
     (panic + ('s Keeper option \<times> error option)) \<times> 'w" where
  "OpenKeeperURL mux ctx u w =
     (case u of
        None \<Rightarrow> (Inl NilPointerDereference, w)
      | Some url \<Rightarrow>
          if Scheme url = []
          then (Inr (None, Some (no_scheme_error url)), w)
          else
            (case lookup_opener mux (Scheme url) of
               None \<Rightarrow> (Inr (None, Some (no_provider_error url)), w)
             | Some f \<Rightarrow> (case f ctx url w of (r, w1) \<Rightarrow> (Inr r, w1))))"

text \<open>
  \<^verbatim>\<open>URLMux.OpenKeeper\<close>. \<^verbatim>\<open>url.Parse\<close> belongs to the Go standard library and is taken as
  the parameter \<open>url_Parse\<close>: it returns an error, or the parsed URL.
\<close>

definition URLMux_OpenKeeper ::
  "(string \<Rightarrow> error + URL) \<Rightarrow> ('s, 'w) URLMux option \<Rightarrow> Context \<Rightarrow> string \<Rightarrow> 'w \<Rightarrow>
     (panic + ('s Keeper option \<times> error option)) \<times> 'w" where
  "URLMux_OpenKeeper url_Parse mux ctx urlstr w =
     (case url_Parse urlstr of
        Inl err \<Rightarrow> (Inr (None, Some (Errorf ''open keeper: %v'' [ArgError err])), w)
      | Inr u \<Rightarrow> OpenKeeperURL mux ctx (Some u) w)"

text \<open>
  \<^verbatim>\<open>defaultURLMux = new(URLMux)\<close> at process start, and the package-level \<^verbatim>\<open>OpenKeeper\<close>,
  which resolves against the current value of that variable.
\<close>

definition defaultURLMux :: "('s, 'w) URLMux" where
  "defaultURLMux = \<lparr>schemes = None\<rparr>"

definition OpenKeeper ::
  "(string \<Rightarrow> error + URL) \<Rightarrow> ('s, 'w) URLMux \<Rightarrow> Context \<Rightarrow> string \<Rightarrow> 'w \<Rightarrow>
     (panic + ('s Keeper option \<times> error option)) \<times> 'w" where
  "OpenKeeper url_Parse dflt ctx urlstr w = URLMux_OpenKeeper url_Parse (Some dflt) ctx urlstr w"

section \<open>A local provider, for running the definitions on concrete inputs\<close>

text \<open>
  A provider in the style of \<^verbatim>\<open>localsecrets\<close>, small enough to evaluate: it shifts every
  byte by 42, counts its successful calls in its state, refuses a cancelled context (the
  root context 0 stands for one) and a nil payload.
\<close>

fun cancelled :: "Context \<Rightarrow> bool" where
  "cancelled (Background n) = (n = 0)"
| "cancelled (WithSpan p m pr c) = cancelled c"

definition local_Encrypt :: "Context \<Rightarrow> slice \<Rightarrow> nat \<Rightarrow> (slice \<times> error option) \<times> nat" where
  "local_Encrypt ctx p s =
     (if cancelled ctx then ((None, Some (ProviderError ''context canceled'')), s)
      else case p of
             None \<Rightarrow> ((None, Some (ProviderError ''nil plaintext'')), s)
           | Some bs \<Rightarrow> ((Some (map (\<lambda>b. b + 42) bs), None), Suc s))"

definition local_Decrypt :: "Context \<Rightarrow> slice \<Rightarrow> nat \<Rightarrow> (slice \<times> error option) \<times> nat" where
  "local_Decrypt ctx c s =
     (if cancelled ctx then ((None, Some (ProviderError ''context canceled'')), s)
      else case c of
             None \<Rightarrow> ((None, Some (ProviderError ''invalid ciphertext'')), s)
           | Some bs \<Rightarrow> ((Some (map (\<lambda>b. b - 42) bs), None), Suc s))"

definition local_driver :: "nat driver_Keeper" where
  "local_driver =
     \<lparr>Decrypt = local_Decrypt,
      Encrypt = local_Encrypt,
      ErrorAs = (\<lambda>e i. e = ProviderError ''invalid ciphertext'' \<and> i = Pointer 0),
      ErrorCode = (\<lambda>e. if e = ProviderError ''invalid ciphertext'' then 3 else 2)\<rparr>"

definition local_DoNotWrap :: "error \<Rightarrow> bool" where
  "local_DoNotWrap e = (e = ProviderError ''context canceled'')"

definition local_state :: "nat state" where
  "local_state = \<lparr>this = newKeeper (\<lambda>d. ''local'') local_driver, backend = 0, sink = []\<rparr>"

text \<open>
  An opener for the scheme \<^verbatim>\<open>mem\<close> that builds a Keeper on the local provider and counts
  its invocations in the world, a registry holding it, and a stand-in for \<^verbatim>\<open>url.Parse\<close>
  that knows three strings.
\<close>

definition local_opener :: "(nat, nat) KeeperURLOpener" where
  "local_opener ctx u w = ((Some (newKeeper (\<lambda>d. ''local'') local_driver), None), Suc w)"

definition mem_mux :: "(nat, nat) URLMux" where
  "mem_mux = \<lparr>schemes = Some [''mem'' \<mapsto> Some local_opener]\<rparr>"

definition sample_Parse :: "string \<Rightarrow> error + URL" where
  "sample_Parse s =
     (if s = ''mem://key1'' then Inr \<lparr>Scheme = ''mem'', Host = ''key1'', Path = '''', RawQuery = ''''\<rparr>
      else if s = ''/only/a/path'' then Inr \<lparr>Scheme = '''', Host = '''', Path = s, RawQuery = ''''\<rparr>
      else if s = ''unknownscheme://x''
        then Inr \<lparr>Scheme = ''unknownscheme'', Host = ''x'', Path = '''', RawQuery = ''''\<rparr>
      else Inl (ProviderError ''parse error''))"

section \<open>Shared lemmas\<close>

lemmas local_eval =
  Keeper_Encrypt_def Keeper_Decrypt_def Keeper_ErrorAs_def delegated_Encrypt_def
  delegated_Decrypt_def wrapError_def gcerr_New_def local_state_def newKeeper_def
  local_driver_def local_Encrypt_def local_Decrypt_def local_DoNotWrap_def
  Tracer_Start_def Tracer_End_def

lemma local_state_simps:
  "Keeper_k (this local_state) = local_driver"
  "backend local_state = 0"
  by (simp_all add: local_state_def newKeeper_def)

lemma Keeper_Encrypt_unfold:
  "delegated_Encrypt st ctx p = ((b, err), s1) \<Longrightarrow>
   Keeper_Encrypt dnw ctx p st =
     ((case err of Some e \<Rightarrow> (None, Some (wrapError dnw (this st) e)) | None \<Rightarrow> (b, None)),
      st\<lparr>backend := s1,
         sink := Tracer_End (Keeper_tracer (this st))
                   (Tracer_Start (Keeper_tracer (this st)) ctx ''Encrypt'')
                   (case err of Some e \<Rightarrow> Some (wrapError dnw (this st) e) | None \<Rightarrow> None)
                   (sink st)\<rparr>)"
  by (simp add: Keeper_Encrypt_def delegated_Encrypt_def Let_def split: option.split)

lemma Keeper_Decrypt_unfold:
  "delegated_Decrypt st ctx c = ((b, err), s1) \<Longrightarrow>
   Keeper_Decrypt dnw ctx c st =
     ((case err of Some e \<Rightarrow> (None, Some (wrapError dnw (this st) e)) | None \<Rightarrow> (b, None)),
      st\<lparr>backend := s1,
         sink := Tracer_End (Keeper_tracer (this st))
                   (Tracer_Start (Keeper_tracer (this st)) ctx ''Decrypt'')
                   (case err of Some e \<Rightarrow> Some (wrapError dnw (this st) e) | None \<Rightarrow> None)
                   (sink st)\<rparr>)"
  by (simp add: Keeper_Decrypt_def delegated_Decrypt_def Let_def split: option.split)

text \<open>An error value is finite, so wrapping one never gives the same value back.\<close>

lemma gcerr_Error_neq_cause: "gcerr_Error c e m \<noteq> e"
proof
  assume "gcerr_Error c e m = e"
  then have "size (gcerr_Error c e m) = size e" by simp
  then show False by simp
qed

lemma wrapError_cases:
  "wrapError dnw kp e =
     (if dnw e then e else gcerr_Error (ErrorCode (Keeper_k kp) e) e ''secrets'')"
  by (simp add: wrapError_def gcerr_New_def)

lemma Keeper_Encrypt_error:
  assumes "snd (fst (delegated_Encrypt st ctx p)) = Some e"
  shows "fst (Keeper_Encrypt dnw ctx p st) = (None, Some (wrapError dnw (this st) e))"
proof -
  obtain b err s1 where be: "delegated_Encrypt st ctx p = ((b, err), s1)"
    by (metis surj_pair)
  with assms have "err = Some e" by simp
  with Keeper_Encrypt_unfold [OF be, of dnw] show ?thesis by simp
qed

lemma Keeper_Decrypt_error:
  assumes "snd (fst (delegated_Decrypt st ctx c)) = Some e"
  shows "fst (Keeper_Decrypt dnw ctx c st) = (None, Some (wrapError dnw (this st) e))"
proof -
  obtain b err s1 where be: "delegated_Decrypt st ctx c = ((b, err), s1)"
    by (metis surj_pair)
  with assms have "err = Some e" by simp
  with Keeper_Decrypt_unfold [OF be, of dnw] show ?thesis by simp
qed

lemma Keeper_Encrypt_frame:
  "this (snd (Keeper_Encrypt dnw ctx p st)) = this st"
  "backend (snd (Keeper_Encrypt dnw ctx p st)) = snd (delegated_Encrypt st ctx p)"
proof -
  obtain b err s1 where be: "delegated_Encrypt st ctx p = ((b, err), s1)"
    by (metis surj_pair)
  from Keeper_Encrypt_unfold [OF be, of dnw] be
  show "this (snd (Keeper_Encrypt dnw ctx p st)) = this st"
    and "backend (snd (Keeper_Encrypt dnw ctx p st)) = snd (delegated_Encrypt st ctx p)"
    by simp_all
qed

lemma Keeper_Decrypt_frame:
  "this (snd (Keeper_Decrypt dnw ctx c st)) = this st"
  "backend (snd (Keeper_Decrypt dnw ctx c st)) = snd (delegated_Decrypt st ctx c)"
proof -
  obtain b err s1 where be: "delegated_Decrypt st ctx c = ((b, err), s1)"
    by (metis surj_pair)
  from Keeper_Decrypt_unfold [OF be, of dnw] be
  show "this (snd (Keeper_Decrypt dnw ctx c st)) = this st"
    and "backend (snd (Keeper_Decrypt dnw ctx c st)) = snd (delegated_Decrypt st ctx c)"
    by simp_all
qed

lemma step_this: "this (step dnw c st) = this st"
  by (cases c) (simp_all add: Keeper_Encrypt_frame Keeper_Decrypt_frame Keeper_ErrorAs_def)

text \<open>The local provider decrypts what it encrypted.\<close>

lemma local_roundtrip:
  "Encrypt local_driver c1 p s = ((c, None), s1) \<Longrightarrow>
   Decrypt local_driver c2 c s1 = ((q, None), s2) \<Longrightarrow> q = p"
  by (auto simp: local_driver_def local_Encrypt_def local_Decrypt_def comp_def
           split: if_splits option.splits)

lemma RegisterKeeper_exists:
  "scheme_exists m s \<Longrightarrow> RegisterKeeper (Some m) s opener = Inl (already_registered s)"
  by (auto simp: RegisterKeeper_def scheme_exists_def split: option.splits)

lemma RegisterKeeper_fresh:
  "\<not> scheme_exists m s \<Longrightarrow>
   RegisterKeeper (Some m) s opener =
     Inr (m\<lparr>schemes := Some ((case schemes m of None \<Rightarrow> Map.empty | Some tbl \<Rightarrow> tbl)(s \<mapsto> opener))\<rparr>)"
  by (auto simp: RegisterKeeper_def scheme_exists_def split: option.splits)

lemma RegisterKeeper_registers:
  "RegisterKeeper (Some m) s opener = Inr m1 \<Longrightarrow> scheme_exists m1 s"
  by (auto simp: RegisterKeeper_def scheme_exists_def split: option.splits)

lemma lookup_opener_absent:
  "\<not> scheme_exists m s \<Longrightarrow> lookup_opener (Some m) s = None"
  by (auto simp: lookup_opener_def map_index_def scheme_exists_def split: option.splits)

lemma OpenKeeperURL_no_opener:
  "lookup_opener mux (Scheme u) = None \<Longrightarrow>
   OpenKeeperURL mux ctx (Some u) w =
     (Inr (None, Some (if Scheme u = [] then no_scheme_error u else no_provider_error u)), w)"
  by (simp add: OpenKeeperURL_def)

lemma OpenKeeperURL_no_scheme:
  "Scheme u = [] \<Longrightarrow>
   OpenKeeperURL mux ctx (Some u) w = (Inr (None, Some (no_scheme_error u)), w)"
  by (simp add: OpenKeeperURL_def)

section \<open>The concrete scenarios of the spec, on the local provider\<close>

text \<open>
  Register an opener for \<^verbatim>\<open>mem\<close>; resolving \<^verbatim>\<open>mem://key1\<close> runs that opener once and
  returns its Keeper; encrypting \<^verbatim>\<open>hello\<close> gives a ciphertext that is not \<^verbatim>\<open>hello\<close>.
\<close>

lemma scenario_register_mem:
  "RegisterKeeper (Some defaultURLMux) ''mem'' (Some local_opener) = Inr mem_mux"
  by (simp add: RegisterKeeper_def defaultURLMux_def mem_mux_def)

lemma scenario_resolve_mem:
  "URLMux_OpenKeeper sample_Parse (Some mem_mux) (Background 3) ''mem://key1'' 0
     = (Inr (Some (this local_state), None), 1)"
  by (simp add: URLMux_OpenKeeper_def sample_Parse_def OpenKeeperURL_def lookup_opener_def
        map_index_def mem_mux_def local_opener_def local_state_def)

lemma scenario_encrypt_hello:
  "fst (Keeper_Encrypt local_DoNotWrap (Background 3) (Some [104, 101, 108, 108, 111]) local_state)
     = (Some [146, 143, 150, 150, 153], None)"
  by (simp add: local_eval)

text \<open>
  Resolving \<^verbatim>\<open>unknownscheme://x\<close> against the registry of process start fails with the
  error that names \<^verbatim>\<open>unknownscheme\<close>.
\<close>

lemma scenario_unknown_scheme:
  "OpenKeeper sample_Parse (defaultURLMux :: (nat, nat) URLMux) (Background 3) ''unknownscheme://x'' 0
     = (Inr (None,
             Some (Errorf ''open keeper %q: no provider registered for %s''
                     [ArgURL \<lparr>Scheme = ''unknownscheme'', Host = ''x'', Path = [], RawQuery = []\<rparr>,
                      ArgString ''unknownscheme''])), 0)"
  by (simp add: OpenKeeper_def URLMux_OpenKeeper_def sample_Parse_def OpenKeeperURL_def
        lookup_opener_def map_index_def defaultURLMux_def no_provider_error_def)

section \<open>The Keeper\<close>

text \<open>
  C1. Round trip through the facade. The capability contract of the backend is the
  hypothesis: whatever the backend encrypts without error, it decrypts, without error, to
  the same payload, in the state the encryption left. Then for every payload \<open>p\<close>, if
  \<open>Keeper.Encrypt\<close> returns the ciphertext \<open>c\<close> with a nil error and \<open>Keeper.Decrypt\<close>,
  called next on \<open>c\<close>, returns \<open>q\<close> with a nil error, then \<open>q = p\<close>. The two calls may run
  under different contexts; the facade hands the backend the context with the span
  started, so the contract is asked for every context.
\<close>

theorem Keeper_roundtrip:
  assumes contract: "\<And>c1 c2 p c q s s1 s2.
            Encrypt (Keeper_k (this st)) c1 p s = ((c, None), s1) \<Longrightarrow>
            Decrypt (Keeper_k (this st)) c2 c s1 = ((q, None), s2) \<Longrightarrow> q = p"
    and enc: "Keeper_Encrypt dnw ctx p st = ((c, None), st1)"
    and dec: "Keeper_Decrypt dnw ctx' c st1 = ((q, None), st2)"
  shows "q = p"
proof -
  obtain b err s1 where be: "delegated_Encrypt st ctx p = ((b, err), s1)"
    by (metis surj_pair)
  from enc Keeper_Encrypt_unfold [OF be, of dnw]
  have e1: "err = None" "b = c" and st1: "this st1 = this st" "backend st1 = s1"
    by (auto split: option.splits)
  obtain b' err' s2 where bd: "delegated_Decrypt st1 ctx' c = ((b', err'), s2)"
    by (metis surj_pair)
  from dec Keeper_Decrypt_unfold [OF bd, of dnw]
  have e2: "err' = None" "b' = q"
    by (auto split: option.splits)
  from be e1
  have "Encrypt (Keeper_k (this st)) (Tracer_Start (Keeper_tracer (this st)) ctx ''Encrypt'')
          p (backend st) = ((c, None), s1)"
    by (simp add: delegated_Encrypt_def)
  moreover from bd e2 st1
  have "Decrypt (Keeper_k (this st)) (Tracer_Start (Keeper_tracer (this st)) ctx' ''Decrypt'')
          c s1 = ((q, None), s2)"
    by (simp add: delegated_Decrypt_def)
  ultimately show ?thesis by (rule contract)
qed

theorem Keeper_roundtrip_witness:
  "fst (Keeper_Encrypt local_DoNotWrap (Background 3) (Some [104, 101, 108, 108, 111]) local_state)
       = (Some [146, 143, 150, 150, 153], None)
   \<and> fst (Keeper_Decrypt local_DoNotWrap (Background 2) (Some [146, 143, 150, 150, 153])
         (snd (Keeper_Encrypt local_DoNotWrap (Background 3) (Some [104, 101, 108, 108, 111]) local_state)))
       = (Some [104, 101, 108, 108, 111], None)"
proof -
  let ?st1 = "snd (Keeper_Encrypt local_DoNotWrap (Background 3) (Some [104, 101, 108, 108, 111]) local_state)"
  let ?r = "Keeper_Decrypt local_DoNotWrap (Background 2) (Some [146, 143, 150, 150, 153]) ?st1"
  have contract: "\<And>c1 c2 p c q s s1 s2.
      Encrypt (Keeper_k (this local_state)) c1 p s = ((c, None), s1) \<Longrightarrow>
      Decrypt (Keeper_k (this local_state)) c2 c s1 = ((q, None), s2) \<Longrightarrow> q = p"
    unfolding local_state_simps by (rule local_roundtrip)
  have enc1: "fst (Keeper_Encrypt local_DoNotWrap (Background 3) (Some [104, 101, 108, 108, 111]) local_state)
               = (Some [146, 143, 150, 150, 153], None)"
    by (simp add: local_eval)
  then have enc: "Keeper_Encrypt local_DoNotWrap (Background 3) (Some [104, 101, 108, 108, 111]) local_state
               = ((Some [146, 143, 150, 150, 153], None), ?st1)"
    by (metis prod.collapse)
  have none: "snd (fst ?r) = None"
    by (simp add: local_eval)
  then have dec: "?r = ((fst (fst ?r), None), snd ?r)"
    by (metis prod.collapse)
  have "fst (fst ?r) = Some [104, 101, 108, 108, 111]"
    by (rule Keeper_roundtrip [OF contract enc dec])
  with none have "fst ?r = (Some [104, 101, 108, 108, 111], None)"
    by (metis prod.collapse)
  with enc1 show ?thesis by simp
qed

text \<open>
  C2. The error policy of \<open>wrapError\<close>, seen from \<open>Encrypt\<close> and \<open>Decrypt\<close>. When the
  backend call returns the error \<open>e\<close>, the Keeper returns \<open>e\<close> itself if \<open>e\<close> carries the
  do-not-wrap marker, and otherwise the error built by \<open>gcerr.New\<close> from the backend's
  own \<open>ErrorCode e\<close>, with \<open>e\<close> as its cause and the tag \<open>secrets\<close>. That error has the
  backend's classification as its code and \<open>e\<close> as its cause, and it is never \<open>e\<close>
  itself: an error that is not marked is never returned raw.
\<close>

theorem Keeper_error_policy:
  "(snd (fst (delegated_Encrypt st ctx p)) = Some e \<longrightarrow>
      snd (fst (Keeper_Encrypt dnw ctx p st)) =
        Some (if dnw e then e else gcerr_Error (ErrorCode (Keeper_k (this st)) e) e ''secrets''))
   \<and> (snd (fst (delegated_Decrypt st ctx p)) = Some e \<longrightarrow>
      snd (fst (Keeper_Decrypt dnw ctx p st)) =
        Some (if dnw e then e else gcerr_Error (ErrorCode (Keeper_k (this st)) e) e ''secrets''))
   \<and> Code (gcerr_Error (ErrorCode (Keeper_k (this st)) e) e ''secrets'') = ErrorCode (Keeper_k (this st)) e
   \<and> cause (gcerr_Error (ErrorCode (Keeper_k (this st)) e) e ''secrets'') = e
   \<and> gcerr_Error (ErrorCode (Keeper_k (this st)) e) e ''secrets'' \<noteq> e"
  by (simp add: Keeper_Encrypt_error Keeper_Decrypt_error wrapError_cases gcerr_Error_neq_cause)

theorem Keeper_error_policy_witness:
  "snd (fst (delegated_Encrypt local_state (Background 0) (Some [7])))
     = Some (ProviderError ''context canceled'')
   \<and> snd (fst (Keeper_Encrypt local_DoNotWrap (Background 0) (Some [7]) local_state))
     = Some (ProviderError ''context canceled'')
   \<and> snd (fst (delegated_Decrypt local_state (Background 3) None))
     = Some (ProviderError ''invalid ciphertext'')
   \<and> snd (fst (Keeper_Decrypt local_DoNotWrap (Background 3) None local_state))
     = Some (gcerr_Error 3 (ProviderError ''invalid ciphertext'') ''secrets'')"
proof -
  have h1: "snd (fst (delegated_Encrypt local_state (Background 0) (Some [7])))
              = Some (ProviderError ''context canceled'')"
    by (simp add: local_eval)
  have h2: "snd (fst (delegated_Decrypt local_state (Background 3) None))
              = Some (ProviderError ''invalid ciphertext'')"
    by (simp add: local_eval)
  from h1 Keeper_error_policy [of local_state "Background 0" "Some [7]"
      "ProviderError ''context canceled''" local_DoNotWrap]
  have c1: "snd (fst (Keeper_Encrypt local_DoNotWrap (Background 0) (Some [7]) local_state))
        = Some (ProviderError ''context canceled'')"
    by (simp add: local_DoNotWrap_def)
  from h2 Keeper_error_policy [of local_state "Background 3" None
      "ProviderError ''invalid ciphertext''" local_DoNotWrap]
  have c2: "snd (fst (Keeper_Decrypt local_DoNotWrap (Background 3) None local_state))
        = Some (gcerr_Error 3 (ProviderError ''invalid ciphertext'') ''secrets'')"
    by (simp add: local_DoNotWrap_def local_state_simps local_driver_def)
  from h1 h2 c1 c2 show ?thesis by simp
qed


text \<open>
  C6, as stated, at a backend error that carries the do-not-wrap marker: the backend's
  \<open>Encrypt\<close> fails with \<open>context canceled\<close>, and the Keeper returns a nil ciphertext
  with that very error, not the error \<open>gcerr.New\<close> would build from it.
\<close>

theorem Keeper_Encrypt_raw_error_counterexample:
  "snd (fst (delegated_Encrypt local_state (Background 0) (Some [104, 105])))
     = Some (ProviderError ''context canceled'')
   \<and> fst (Keeper_Encrypt local_DoNotWrap (Background 0) (Some [104, 105]) local_state)
     = (None, Some (ProviderError ''context canceled''))
   \<and> snd (fst (Keeper_Encrypt local_DoNotWrap (Background 0) (Some [104, 105]) local_state))
     \<noteq> Some (gcerr_New (ErrorCode local_driver (ProviderError ''context canceled''))
               (ProviderError ''context canceled'') 2 ''secrets'')"
  by (simp add: local_eval)

text \<open>
  C6, amended. \<open>Encrypt\<close> makes one call of the backend's \<open>Encrypt\<close>, on the context with
  the span started and in the backend's current state, and leaves the backend in the
  state that call returned. If the backend succeeds, the Keeper returns exactly the
  backend's ciphertext with a nil error and reports a nil status to the sink. If the
  backend fails with \<open>e\<close>, the Keeper returns a nil ciphertext and: \<open>e\<close> itself when \<open>e\<close>
  carries the do-not-wrap marker, otherwise the normalized error, which is never \<open>e\<close>.
  \<open>Decrypt\<close> does the same with the backend's \<open>Decrypt\<close>.
\<close>

theorem Keeper_delegates:
  "(delegated_Encrypt st ctx p = ((b, None), s1) \<longrightarrow>
      Keeper_Encrypt dnw ctx p st =
        ((b, None),
         st\<lparr>backend := s1,
            sink := sink st @ [\<lparr>obs_ctx = Tracer_Start (Keeper_tracer (this st)) ctx ''Encrypt'',
                                obs_status = None,
                                obs_measure = LatencyMeasure (Keeper_tracer (this st))\<rparr>]\<rparr>))
   \<and> (delegated_Encrypt st ctx p = ((b, Some e), s1) \<longrightarrow>
      fst (Keeper_Encrypt dnw ctx p st) =
        (None, Some (if dnw e then e
                     else gcerr_Error (ErrorCode (Keeper_k (this st)) e) e ''secrets''))
      \<and> backend (snd (Keeper_Encrypt dnw ctx p st)) = s1)
   \<and> (delegated_Decrypt st ctx p = ((b, None), s1) \<longrightarrow>
      Keeper_Decrypt dnw ctx p st =
        ((b, None),
         st\<lparr>backend := s1,
            sink := sink st @ [\<lparr>obs_ctx = Tracer_Start (Keeper_tracer (this st)) ctx ''Decrypt'',
                                obs_status = None,
                                obs_measure = LatencyMeasure (Keeper_tracer (this st))\<rparr>]\<rparr>))
   \<and> (delegated_Decrypt st ctx p = ((b, Some e), s1) \<longrightarrow>
      fst (Keeper_Decrypt dnw ctx p st) =
        (None, Some (if dnw e then e
                     else gcerr_Error (ErrorCode (Keeper_k (this st)) e) e ''secrets''))
      \<and> backend (snd (Keeper_Decrypt dnw ctx p st)) = s1)
   \<and> gcerr_Error (ErrorCode (Keeper_k (this st)) e) e ''secrets'' \<noteq> e"
proof (intro conjI impI)
  assume "delegated_Encrypt st ctx p = ((b, None), s1)"
  from Keeper_Encrypt_unfold [OF this, of dnw]
  show "Keeper_Encrypt dnw ctx p st =
        ((b, None),
         st\<lparr>backend := s1,
            sink := sink st @ [\<lparr>obs_ctx = Tracer_Start (Keeper_tracer (this st)) ctx ''Encrypt'',
                                obs_status = None,
                                obs_measure = LatencyMeasure (Keeper_tracer (this st))\<rparr>]\<rparr>)"
    by (simp add: Tracer_End_def)
next
  assume a: "delegated_Encrypt st ctx p = ((b, Some e), s1)"
  from Keeper_Encrypt_unfold [OF a, of dnw]
  show "fst (Keeper_Encrypt dnw ctx p st) =
        (None, Some (if dnw e then e
                     else gcerr_Error (ErrorCode (Keeper_k (this st)) e) e ''secrets''))"
    by (simp add: wrapError_cases)
  from a show "backend (snd (Keeper_Encrypt dnw ctx p st)) = s1"
    by (simp add: Keeper_Encrypt_frame)
next
  assume "delegated_Decrypt st ctx p = ((b, None), s1)"
  from Keeper_Decrypt_unfold [OF this, of dnw]
  show "Keeper_Decrypt dnw ctx p st =
        ((b, None),
         st\<lparr>backend := s1,
            sink := sink st @ [\<lparr>obs_ctx = Tracer_Start (Keeper_tracer (this st)) ctx ''Decrypt'',
                                obs_status = None,
                                obs_measure = LatencyMeasure (Keeper_tracer (this st))\<rparr>]\<rparr>)"
    by (simp add: Tracer_End_def)
next
  assume a: "delegated_Decrypt st ctx p = ((b, Some e), s1)"
  from Keeper_Decrypt_unfold [OF a, of dnw]
  show "fst (Keeper_Decrypt dnw ctx p st) =
        (None, Some (if dnw e then e
                     else gcerr_Error (ErrorCode (Keeper_k (this st)) e) e ''secrets''))"
    by (simp add: wrapError_cases)
  from a show "backend (snd (Keeper_Decrypt dnw ctx p st)) = s1"
    by (simp add: Keeper_Decrypt_frame)
next
  show "gcerr_Error (ErrorCode (Keeper_k (this st)) e) e ''secrets'' \<noteq> e"
    by (rule gcerr_Error_neq_cause)
qed

theorem Keeper_delegates_witness:
  "delegated_Encrypt local_state (Background 3) (Some [104, 105]) = ((Some [146, 147], None), 1)
   \<and> fst (Keeper_Encrypt local_DoNotWrap (Background 3) (Some [104, 105]) local_state)
       = (Some [146, 147], None)
   \<and> delegated_Decrypt local_state (Background 3) None
       = ((None, Some (ProviderError ''invalid ciphertext'')), 0)
   \<and> fst (Keeper_Decrypt local_DoNotWrap (Background 3) None local_state)
       = (None, Some (gcerr_Error 3 (ProviderError ''invalid ciphertext'') ''secrets''))"
proof -
  have h1: "delegated_Encrypt local_state (Background 3) (Some [104, 105]) = ((Some [146, 147], None), 1)"
    by (simp add: local_eval)
  have h2: "delegated_Decrypt local_state (Background 3) None
       = ((None, Some (ProviderError ''invalid ciphertext'')), 0)"
    by (simp add: local_eval)
  from h1 Keeper_delegates [of local_state "Background 3" "Some [104, 105]" "Some [146, 147]" 1
      local_DoNotWrap "ProviderError ''invalid ciphertext''"]
  have c1: "fst (Keeper_Encrypt local_DoNotWrap (Background 3) (Some [104, 105]) local_state)
       = (Some [146, 147], None)"
    by simp
  from h2 Keeper_delegates [of local_state "Background 3" None None 0
      local_DoNotWrap "ProviderError ''invalid ciphertext''"]
  have c2: "fst (Keeper_Decrypt local_DoNotWrap (Background 3) None local_state)
       = (None, Some (gcerr_Error 3 (ProviderError ''invalid ciphertext'') ''secrets''))"
    by (simp add: local_DoNotWrap_def local_state_simps local_driver_def)
  from h1 h2 c1 c2 show ?thesis by simp
qed



text \<open>
  C8. No method assigns to the Keeper. After \<open>Encrypt\<close>, after \<open>Decrypt\<close> and after
  \<open>ErrorAs\<close>, with any arguments, the struct behind the receiver is the one before the
  call: the same backend reference and the same tracer, so the same package name,
  provider identity and latency measure. Hence along every sequence of such calls every
  state holds the Keeper the sequence started with.
\<close>

theorem Keeper_immutable:
  "this (snd (Keeper_Encrypt dnw ctx p st)) = this st
   \<and> this (snd (Keeper_Decrypt dnw ctx p st)) = this st
   \<and> this (snd (Keeper_ErrorAs err i st)) = this st
   \<and> (\<forall>s \<in> set (states dnw calls st). this s = this st)"
proof -
  have "\<forall>s \<in> set (states dnw calls st). this s = this st"
  proof (induction calls arbitrary: st)
    case Nil
    show ?case by simp
  next
    case (Cons c cs)
    from Cons.IH [of "step dnw c st"] show ?case
      by (simp add: step_this)
  qed
  then show ?thesis
    by (simp add: Keeper_Encrypt_frame Keeper_Decrypt_frame Keeper_ErrorAs_def)
qed

theorem Keeper_immutable_witness:
  "map this (states local_DoNotWrap
             [CallEncrypt (Background 3) (Some [104, 105]), CallErrorAs None NilInterface,
              CallDecrypt (Background 0) None] local_state)
     = [this local_state, this local_state, this local_state, this local_state]
   \<and> map backend (states local_DoNotWrap
             [CallEncrypt (Background 3) (Some [104, 105]), CallErrorAs None NilInterface,
              CallDecrypt (Background 0) None] local_state) = [0, 1, 1, 1]
   \<and> map (length \<circ> sink) (states local_DoNotWrap
             [CallEncrypt (Background 3) (Some [104, 105]), CallErrorAs None NilInterface,
              CallDecrypt (Background 0) None] local_state) = [0, 1, 1, 2]"
proof -
  let ?cs = "[CallEncrypt (Background 3) (Some [104, 105]), CallErrorAs None NilInterface,
              CallDecrypt (Background 0) None]"
  let ?xs = "states local_DoNotWrap ?cs local_state"
  have len: "length ?xs = 4" by simp
  from Keeper_immutable [of local_DoNotWrap "Background 3" None local_state None NilInterface ?cs]
  have all: "\<forall>s \<in> set ?xs. this s = this local_state" by blast
  then have "map this ?xs = replicate (length ?xs) (this local_state)"
    by (simp add: map_replicate_const [symmetric] cong: map_cong)
  with len have m: "map this ?xs = [this local_state, this local_state, this local_state, this local_state]"
    by (simp add: numeral_eq_Suc)
  have b: "map backend ?xs = [0, 1, 1, 1]"
    by (simp add: local_eval)
  have k: "map (length \<circ> sink) ?xs = [0, 1, 1, 2]"
    by (simp add: local_eval)
  from m b k show ?thesis by simp
qed


section \<open>The registry\<close>



text \<open>
  C4. For every URL whose scheme the registry has no opener for (the receiver is nil,
  the map is nil, the scheme is not in the map, or it is bound to a nil opener),
  \<open>OpenKeeperURL\<close> returns a nil Keeper and an error and leaves the world of the openers
  untouched: no opener ran and no Keeper was built. The error is the one of line 195,
  whose last argument is the scheme; a URL whose \<open>Scheme\<close> field is empty has no scheme
  to name and gets the error of line 188. A scheme that is not in the map has no opener,
  and the zero-value registry has none for any scheme.
\<close>

theorem OpenKeeperURL_unregistered:
  "(lookup_opener mux (Scheme u) = None \<longrightarrow>
      OpenKeeperURL mux ctx (Some u) w =
        (Inr (None, Some (if Scheme u = [] then no_scheme_error u else no_provider_error u)), w))
   \<and> (\<not> scheme_exists m (Scheme u) \<longrightarrow>
      OpenKeeperURL (Some m) ctx (Some u) w =
        (Inr (None, Some (if Scheme u = [] then no_scheme_error u else no_provider_error u)), w))
   \<and> OpenKeeperURL (Some defaultURLMux) ctx (Some u) w =
        (Inr (None, Some (if Scheme u = [] then no_scheme_error u else no_provider_error u)), w)
   \<and> no_provider_error u =
        Errorf ''open keeper %q: no provider registered for %s'' [ArgURL u, ArgString (Scheme u)]"
proof (intro conjI impI)
  assume "lookup_opener mux (Scheme u) = None"
  then show "OpenKeeperURL mux ctx (Some u) w =
        (Inr (None, Some (if Scheme u = [] then no_scheme_error u else no_provider_error u)), w)"
    by (rule OpenKeeperURL_no_opener)
next
  assume "\<not> scheme_exists m (Scheme u)"
  then have "lookup_opener (Some m) (Scheme u) = None"
    by (rule lookup_opener_absent)
  then show "OpenKeeperURL (Some m) ctx (Some u) w =
        (Inr (None, Some (if Scheme u = [] then no_scheme_error u else no_provider_error u)), w)"
    by (rule OpenKeeperURL_no_opener)
next
  have "lookup_opener (Some defaultURLMux) (Scheme u) = None"
    by (simp add: lookup_opener_def map_index_def defaultURLMux_def)
  then show "OpenKeeperURL (Some defaultURLMux) ctx (Some u) w =
        (Inr (None, Some (if Scheme u = [] then no_scheme_error u else no_provider_error u)), w)"
    by (rule OpenKeeperURL_no_opener)
next
  show "no_provider_error u =
        Errorf ''open keeper %q: no provider registered for %s'' [ArgURL u, ArgString (Scheme u)]"
    by (simp add: no_provider_error_def)
qed

theorem OpenKeeperURL_unregistered_witness:
  "lookup_opener (Some mem_mux) ''unknownscheme'' = None
   \<and> OpenKeeperURL (Some mem_mux) (Background 3)
        (Some \<lparr>Scheme = ''unknownscheme'', Host = ''x'', Path = [], RawQuery = []\<rparr>) (0 :: nat)
      = (Inr (None,
              Some (Errorf ''open keeper %q: no provider registered for %s''
                      [ArgURL \<lparr>Scheme = ''unknownscheme'', Host = ''x'', Path = [], RawQuery = []\<rparr>,
                       ArgString ''unknownscheme''])), 0)
   \<and> fst (OpenKeeperURL (Some mem_mux) (Background 3)
        (Some \<lparr>Scheme = ''mem'', Host = ''key1'', Path = [], RawQuery = []\<rparr>) (0 :: nat))
      = Inr (Some (newKeeper (\<lambda>d. ''local'') local_driver), None)
   \<and> snd (OpenKeeperURL (Some mem_mux) (Background 3)
        (Some \<lparr>Scheme = ''mem'', Host = ''key1'', Path = [], RawQuery = []\<rparr>) (0 :: nat)) = 1"
proof -
  let ?u = "\<lparr>Scheme = ''unknownscheme'', Host = ''x'', Path = [], RawQuery = []\<rparr>"
  have h: "lookup_opener (Some mem_mux) (Scheme ?u) = None"
    by (simp add: lookup_opener_def map_index_def mem_mux_def)
  have "OpenKeeperURL (Some mem_mux) (Background 3) (Some ?u) (0 :: nat) =
          (Inr (None, Some (if Scheme ?u = [] then no_scheme_error ?u else no_provider_error ?u)), 0)"
    by (rule OpenKeeperURL_unregistered [of "Some mem_mux" ?u "Background 3" 0 mem_mux,
          THEN conjunct1, rule_format, OF h])
  then have "OpenKeeperURL (Some mem_mux) (Background 3) (Some ?u) (0 :: nat) =
          (Inr (None, Some (no_provider_error ?u)), 0)"
    by simp
  moreover have "fst (OpenKeeperURL (Some mem_mux) (Background 3)
        (Some \<lparr>Scheme = ''mem'', Host = ''key1'', Path = [], RawQuery = []\<rparr>) (0 :: nat))
      = Inr (Some (newKeeper (\<lambda>d. ''local'') local_driver), None)"
    by (simp add: OpenKeeperURL_def lookup_opener_def map_index_def mem_mux_def local_opener_def)
  moreover have "snd (OpenKeeperURL (Some mem_mux) (Background 3)
        (Some \<lparr>Scheme = ''mem'', Host = ''key1'', Path = [], RawQuery = []\<rparr>) (0 :: nat)) = 1"
    by (simp add: OpenKeeperURL_def lookup_opener_def map_index_def mem_mux_def local_opener_def)
  ultimately show ?thesis using h by (simp add: no_provider_error_def)
qed


text \<open>
  C5. \<open>URLMux.OpenKeeper\<close> on a string that \<open>url.Parse\<close> rejects returns a nil Keeper
  and the error \<open>open keeper: %v\<close> carrying the parse error; on a string that parses
  to a URL with an empty scheme it returns a nil Keeper and the error of line 188, as
  \<open>OpenKeeperURL\<close> does on every URL with an empty scheme. This holds for every receiver,
  whatever is registered, and the world of the openers is as before: no opener ran and
  no Keeper was built.
\<close>

theorem OpenKeeper_rejects:
  "(url_Parse s = Inl err \<longrightarrow>
      URLMux_OpenKeeper url_Parse mux ctx s w =
        (Inr (None, Some (Errorf ''open keeper: %v'' [ArgError err])), w))
   \<and> (url_Parse s = Inr u \<and> Scheme u = [] \<longrightarrow>
      URLMux_OpenKeeper url_Parse mux ctx s w = (Inr (None, Some (no_scheme_error u)), w))
   \<and> (Scheme u = [] \<longrightarrow>
      OpenKeeperURL mux ctx (Some u) w = (Inr (None, Some (no_scheme_error u)), w))
   \<and> no_scheme_error u = Errorf ''open keeper %q: no scheme in URL'' [ArgURL u]"
  by (simp add: URLMux_OpenKeeper_def OpenKeeperURL_no_scheme no_scheme_error_def)

theorem OpenKeeper_rejects_witness:
  "sample_Parse ''not a url with spaces and://'' = Inl (ProviderError ''parse error'')
   \<and> URLMux_OpenKeeper sample_Parse (Some mem_mux) (Background 3) ''not a url with spaces and://'' (0 :: nat)
       = (Inr (None, Some (Errorf ''open keeper: %v'' [ArgError (ProviderError ''parse error'')])), 0)
   \<and> sample_Parse ''/only/a/path''
       = Inr \<lparr>Scheme = [], Host = [], Path = ''/only/a/path'', RawQuery = []\<rparr>
   \<and> URLMux_OpenKeeper sample_Parse (Some mem_mux) (Background 3) ''/only/a/path'' (0 :: nat)
       = (Inr (None,
               Some (Errorf ''open keeper %q: no scheme in URL''
                       [ArgURL \<lparr>Scheme = [], Host = [], Path = ''/only/a/path'', RawQuery = []\<rparr>])), 0)"
proof -
  let ?u = "\<lparr>Scheme = [], Host = [], Path = ''/only/a/path'', RawQuery = []\<rparr>"
  have h1: "sample_Parse ''not a url with spaces and://'' = Inl (ProviderError ''parse error'')"
    by (simp add: sample_Parse_def)
  have h2: "sample_Parse ''/only/a/path'' = Inr ?u \<and> Scheme ?u = []"
    by (simp add: sample_Parse_def)
  have c1: "URLMux_OpenKeeper sample_Parse (Some mem_mux) (Background 3)
              ''not a url with spaces and://'' (0 :: nat)
       = (Inr (None, Some (Errorf ''open keeper: %v'' [ArgError (ProviderError ''parse error'')])), 0)"
    by (rule OpenKeeper_rejects [of sample_Parse "''not a url with spaces and://''"
          "ProviderError ''parse error''" "Some mem_mux" "Background 3" 0 ?u,
          THEN conjunct1, rule_format, OF h1])
  have c2: "URLMux_OpenKeeper sample_Parse (Some mem_mux) (Background 3) ''/only/a/path'' (0 :: nat)
       = (Inr (None, Some (no_scheme_error ?u)), 0)"
    by (rule OpenKeeper_rejects [of sample_Parse "''/only/a/path''"
          "ProviderError ''parse error''" "Some mem_mux" "Background 3" 0 ?u,
          THEN conjunct2, THEN conjunct1, rule_format, OF h2])
  from h1 h2 c1 c2 show ?thesis by (simp add: no_scheme_error_def)
qed

text \<open>
  C9. \<open>OpenKeeperURL\<close> on a nil receiver, with a URL that has a non-empty scheme: the
  call returns (it does not panic), with a nil Keeper and the error of line 195, and
  leaves the world as it was, exactly as the zero-value registry and a registry with an
  empty map do.
\<close>

theorem OpenKeeperURL_nil_receiver:
  "Scheme u \<noteq> [] \<longrightarrow>
     OpenKeeperURL None ctx (Some u) w = (Inr (None, Some (no_provider_error u)), w)
     \<and> OpenKeeperURL None ctx (Some u) w = OpenKeeperURL (Some defaultURLMux) ctx (Some u) w
     \<and> OpenKeeperURL None ctx (Some u) w
         = OpenKeeperURL (Some \<lparr>schemes = Some Map.empty\<rparr>) ctx (Some u) w"
  by (simp add: OpenKeeperURL_def lookup_opener_def map_index_def defaultURLMux_def)

theorem OpenKeeperURL_nil_receiver_witness:
  "Scheme \<lparr>Scheme = ''mem'', Host = ''key1'', Path = [], RawQuery = []\<rparr> \<noteq> []
   \<and> (OpenKeeperURL None (Background 3)
         (Some \<lparr>Scheme = ''mem'', Host = ''key1'', Path = [], RawQuery = []\<rparr>) (0 :: nat)
        :: (panic + (nat Keeper option \<times> error option)) \<times> nat)
       = (Inr (None,
               Some (Errorf ''open keeper %q: no provider registered for %s''
                       [ArgURL \<lparr>Scheme = ''mem'', Host = ''key1'', Path = [], RawQuery = []\<rparr>,
                        ArgString ''mem''])), 0)"
proof -
  let ?u = "\<lparr>Scheme = ''mem'', Host = ''key1'', Path = [], RawQuery = []\<rparr>"
  have h: "Scheme ?u \<noteq> []" by simp
  have "(OpenKeeperURL None (Background 3) (Some ?u) (0 :: nat)
          :: (panic + (nat Keeper option \<times> error option)) \<times> nat)
          = (Inr (None, Some (no_provider_error ?u)), 0)"
    by (rule OpenKeeperURL_nil_receiver [of ?u "Background 3" 0, rule_format, OF h, THEN conjunct1])
  with h show ?thesis by (simp add: no_provider_error_def)
qed

text \<open>
  C10. On a registry where the scheme \<open>s\<close> is not in the map, \<open>RegisterKeeper(s, nil)\<close>
  returns without a panic. On the registry it leaves, every resolution gives what it
  gave before the registration, so the scheme resolves as an unregistered one does: for
  a URL with this scheme (a URL has a scheme when its \<open>Scheme\<close> field is not empty) the
  result is a nil Keeper with the no-provider error of line 195, and the world is as
  before. Yet the scheme is in the map: registering it again, with any opener, panics
  with the already-registered error.
\<close>

theorem RegisterKeeper_nil_opener:
  "\<not> scheme_exists m s \<longrightarrow>
     (\<exists>m1. RegisterKeeper (Some m) s None = Inr m1
        \<and> (\<forall>ctx u w. OpenKeeperURL (Some m1) ctx u w = OpenKeeperURL (Some m) ctx u w)
        \<and> (\<forall>ctx u w. Scheme u = s \<and> s \<noteq> [] \<longrightarrow>
              OpenKeeperURL (Some m1) ctx (Some u) w = (Inr (None, Some (no_provider_error u)), w))
        \<and> scheme_exists m1 s
        \<and> RegisterKeeper (Some m1) s o2 = Inl (already_registered s))"
proof
  assume fresh: "\<not> scheme_exists m s"
  let ?m1 = "m\<lparr>schemes := Some ((case schemes m of None \<Rightarrow> Map.empty | Some tbl \<Rightarrow> tbl)(s \<mapsto> None))\<rparr>"
  have reg: "RegisterKeeper (Some m) s None = Inr ?m1"
    using fresh by (rule RegisterKeeper_fresh)
  have look: "lookup_opener (Some ?m1) s' = lookup_opener (Some m) s'" for s'
    using fresh
    by (auto simp: lookup_opener_def map_index_def scheme_exists_def split: option.splits)
  have same: "OpenKeeperURL (Some ?m1) ctx u w = OpenKeeperURL (Some m) ctx u w" for ctx u w
    unfolding OpenKeeperURL_def look ..
  have none: "lookup_opener (Some ?m1) s = None"
    unfolding look using fresh by (rule lookup_opener_absent)
  have res: "OpenKeeperURL (Some ?m1) ctx (Some u) w = (Inr (None, Some (no_provider_error u)), w)"
    if "Scheme u = s \<and> s \<noteq> []" for ctx u w
    using that none OpenKeeperURL_no_opener [of "Some ?m1" u ctx w] by simp
  have ex: "scheme_exists ?m1 s"
    using reg by (rule RegisterKeeper_registers)
  then have dup: "RegisterKeeper (Some ?m1) s o2 = Inl (already_registered s)"
    by (rule RegisterKeeper_exists)
  from reg same res ex dup
  show "\<exists>m1. RegisterKeeper (Some m) s None = Inr m1
        \<and> (\<forall>ctx u w. OpenKeeperURL (Some m1) ctx u w = OpenKeeperURL (Some m) ctx u w)
        \<and> (\<forall>ctx u w. Scheme u = s \<and> s \<noteq> [] \<longrightarrow>
              OpenKeeperURL (Some m1) ctx (Some u) w = (Inr (None, Some (no_provider_error u)), w))
        \<and> scheme_exists m1 s
        \<and> RegisterKeeper (Some m1) s o2 = Inl (already_registered s)"
    by blast
qed

theorem RegisterKeeper_nil_opener_witness:
  "isl (RegisterKeeper (Some mem_mux) ''nil'' None) = False
   \<and> OpenKeeperURL (Some (projr (RegisterKeeper (Some mem_mux) ''nil'' None))) (Background 3)
        (Some \<lparr>Scheme = ''nil'', Host = ''x'', Path = [], RawQuery = []\<rparr>) (0 :: nat)
      = (Inr (None,
              Some (Errorf ''open keeper %q: no provider registered for %s''
                      [ArgURL \<lparr>Scheme = ''nil'', Host = ''x'', Path = [], RawQuery = []\<rparr>,
                       ArgString ''nil''])), 0)
   \<and> RegisterKeeper (Some (projr (RegisterKeeper (Some mem_mux) ''nil'' None))) ''nil'' (Some local_opener)
      = Inl (Panic (Errorf ''scheme %q already registered on mux'' [ArgString ''nil'']))"
proof -
  let ?u = "\<lparr>Scheme = ''nil'', Host = ''x'', Path = [], RawQuery = []\<rparr>"
  have fresh: "\<not> scheme_exists mem_mux ''nil''"
    by (simp add: scheme_exists_def mem_mux_def)
  from RegisterKeeper_nil_opener [of mem_mux "''nil''" "Some local_opener", rule_format, OF fresh]
  obtain m1 where m1: "RegisterKeeper (Some mem_mux) ''nil'' None = Inr m1"
    and res: "\<And>ctx u w. Scheme u = ''nil'' \<and> ''nil'' \<noteq> [] \<Longrightarrow>
              OpenKeeperURL (Some m1) ctx (Some u) w = (Inr (None, Some (no_provider_error u)), w)"
    and dup: "RegisterKeeper (Some m1) ''nil'' (Some local_opener) = Inl (already_registered ''nil'')"
    by blast
  have "OpenKeeperURL (Some m1) (Background 3) (Some ?u) (0 :: nat)
          = (Inr (None, Some (no_provider_error ?u)), 0)"
    by (rule res) simp
  with m1 dup show ?thesis
    by (simp add: no_provider_error_def already_registered_def)
qed

end
